theory Spec2Isabelle
  imports Main "HOL-Library.Word"
begin

section \<open>The compilation-database synchronizer of compdb.js\<close>

text \<open>
  The extension keeps \<open>compile_commands.json\<close> at the root of a workspace folder in
  step with the one CMake writes into the active build directory. Everything it does is
  a sequence of calls to collaborators it does not own (the editor's file system and
  commands, the \<open>compdb\<close> tool, Node's \<open>path\<close>, \<open>JSON\<close>, lodash), so the model
  has three layers:
  \<^item> the values of the JavaScript program (strings or \<open>undefined\<close>, objects with an
    identity, URIs);
  \<^item> the library functions, collected in a record \<open>lib\<close> that every function of the
    model takes as its first argument: a theorem stated for an arbitrary \<open>L\<close> holds
    whatever these functions compute;
  \<^item> the world: what the file system, the tool and the commands answer, and the list
    of the calls made so far, in order.
  An \<open>async\<close> function is modelled run to completion: it takes the world and
  returns the world it leaves, with \<open>Inl\<close> an exception for a rejected promise.
\<close>

subsection \<open>JavaScript values\<close>

text \<open>The exceptions the code can meet outside its \<open>try\<close> blocks.\<close>

datatype js_error = SyntaxError | TypeError

text \<open>
  A value that is a string or \<open>undefined\<close>: what \<open>#runCompDB\<close> resolves with, the
  answer of the \<open>cmake.buildDirectory\<close> command (where \<open>Undefined\<close> stands for any
  answer that is not a string), the argument of \<open>runCompDB\<close>.
\<close>

datatype jsval = Undefined | Str string

text \<open>
  An object is its identity together with its properties. \<open>a !== b\<close> on two objects
  compares the identities and never looks at the properties.
\<close>

record 'a obj =
  ident :: nat
  props :: 'a

definition strict_neq :: "'a obj \<Rightarrow> 'a obj \<Rightarrow> bool" where
  "strict_neq a b = (ident a \<noteq> ident b)"

text \<open>\<open>vscode.Uri\<close> and \<open>vscode.WorkspaceFolder\<close>.\<close>

record Uri =
  scheme :: string
  authority :: string
  path :: string
  query :: string
  fragment :: string

record WorkspaceFolder =
  uri :: Uri
  name :: string
  index :: nat

text \<open>The contents of a file: the elements of a \<open>Uint8Array\<close>.\<close>

type_synonym bytes = "8 word list"

subsection \<open>The library functions\<close>

text \<open>
  \<open>JSON_parse\<close> is \<open>JSON.parse\<close> on a text, \<open>None\<close> when it throws its
  \<open>SyntaxError\<close>; \<open>isEqual\<close> is lodash's deep comparison; \<open>Buffer_toString\<close> is
  the string conversion of the value \<open>readFile\<close> resolves with, which
  \<open>JSON.parse\<close> applies to its argument (in the desktop extension host the value is
  a Node \<open>Buffer\<close>, whose conversion decodes UTF-8); \<open>posix_join\<close> is
  \<open>path.posix.join\<close> on two strings; \<open>Uri_joinPath\<close> is applied to the URI of a
  workspace folder only, which has a path.
\<close>

record 'j lib =
  posix_dirname :: "string \<Rightarrow> string"
  posix_join :: "string \<Rightarrow> string \<Rightarrow> string"
  Uri_file :: "string \<Rightarrow> Uri"
  Uri_joinPath :: "Uri \<Rightarrow> string \<Rightarrow> Uri"
  fsPath :: "Uri \<Rightarrow> string"
  JSON_parse :: "string \<Rightarrow> 'j option"
  isEqual :: "'j \<Rightarrow> 'j \<Rightarrow> bool"
  TextEncoder_encode :: "string \<Rightarrow> bytes"
  Buffer_toString :: "bytes \<Rightarrow> string"

text \<open>\<open>Array.prototype.join('\n')\<close> on an array of strings.\<close>

fun join_lines :: "string list \<Rightarrow> string" where
  "join_lines [] = []"
| "join_lines [x] = x"
| "join_lines (x # y # ys) = x @ CHR 0x0A # join_lines (y # ys)"

subsection \<open>The world\<close>

text \<open>The rejections of \<open>vscode.workspace.fs\<close>.\<close>

datatype fs_error = FileNotFound | FileIsADirectory | NoPermissions | Unavailable

text \<open>The calls the extension makes to its collaborators.\<close>

datatype call =
    BuildDirectoryQuery
  | CompdbRun string
  | ReadFile Uri
  | Stat Uri
  | WriteFile Uri bytes
  | ClangdRestart

text \<open>
  \<open>contents\<close> and \<open>stats\<close> are what \<open>fs.readFile\<close> and \<open>fs.stat\<close> answer for
  a URI (a rejection is \<open>Inl\<close>); the two are independent, so a file can be there and
  unreadable. \<open>compdb_list\<close> is the outcome of \<open>python -m compdb -p dir list\<close>: the
  lines it prints, or \<open>None\<close> when the run is rejected (tool missing, non-zero exit).
  \<open>cmake_buildDirectory\<close> is the answer of the command of that name. \<open>calls\<close>
  records every call, oldest first.
\<close>

record world =
  contents :: "Uri \<Rightarrow> fs_error + bytes"
  stats :: "Uri \<Rightarrow> fs_error + unit"
  compdb_list :: "string \<Rightarrow> string list option"
  cmake_buildDirectory :: jsval
  calls :: "call list"

definition readFile :: "Uri \<Rightarrow> world \<Rightarrow> (fs_error + bytes) \<times> world" where
  "readFile u w = (contents w u, w\<lparr>calls := calls w @ [ReadFile u]\<rparr>)"

definition stat :: "Uri \<Rightarrow> world \<Rightarrow> (fs_error + unit) \<times> world" where
  "stat u w = (stats w u, w\<lparr>calls := calls w @ [Stat u]\<rparr>)"

text \<open>
  A write is taken to succeed: afterwards the file is there and reads back. The two
  commands are taken to complete as well.
\<close>

definition writeFile :: "Uri \<Rightarrow> bytes \<Rightarrow> world \<Rightarrow> world" where
  "writeFile u b w =
     w\<lparr>contents := (contents w)(u := Inr b),
       stats := (stats w)(u := Inr ()),
       calls := calls w @ [WriteFile u b]\<rparr>"

definition executeCommand_clangd_restart :: "world \<Rightarrow> world" where
  "executeCommand_clangd_restart w = w\<lparr>calls := calls w @ [ClangdRestart]\<rparr>"

definition executeCommand_cmake_buildDirectory :: "world \<Rightarrow> jsval \<times> world" where
  "executeCommand_cmake_buildDirectory w =
     (cmake_buildDirectory w, w\<lparr>calls := calls w @ [BuildDirectoryQuery]\<rparr>)"

definition PythonShell_run :: "string \<Rightarrow> world \<Rightarrow> string list option \<times> world" where
  "PythonShell_run localBuildDir w =
     (compdb_list w localBuildDir, w\<lparr>calls := calls w @ [CompdbRun localBuildDir]\<rparr>)"

subsection \<open>CompDBRunner\<close>

definition dirnameUri :: "'j lib \<Rightarrow> Uri \<Rightarrow> Uri" where
  "dirnameUri L u = u\<lparr>path := posix_dirname L (path u)\<rparr>"

text \<open>
  The private fields of the class. The watcher handle is the editor's; the model keeps
  the handlers it would call.
\<close>

record compDBRunner =
  compileCommandsSourceCandidates :: "Uri obj list"
  workspaceFolder :: "WorkspaceFolder obj"

definition CompDBRunner_new :: "WorkspaceFolder obj \<Rightarrow> compDBRunner" where
  "CompDBRunner_new folder =
     \<lparr>compileCommandsSourceCandidates = [], workspaceFolder = folder\<rparr>"

text \<open>
  The inner \<open>run\<close> of \<open>#runCompDB\<close>: the \<open>catch\<close> has no body, so a rejected
  tool run makes the function fall off its end and resolve with \<open>undefined\<close>.
\<close>

definition run :: "string \<Rightarrow> world \<Rightarrow> jsval \<times> world" where
  "run localBuildDir w =
     (case PythonShell_run localBuildDir w of
        (Some response, w') \<Rightarrow> (Str (join_lines response), w')
      | (None, w') \<Rightarrow> (Undefined, w'))"

text \<open>\<open>#runCompDB\<close>: the \<open>else\<close> branch is empty and resolves with \<open>undefined\<close>.\<close>

definition priv_runCompDB :: "'j lib \<Rightarrow> Uri \<Rightarrow> world \<Rightarrow> jsval \<times> world" where
  "priv_runCompDB L sourceUri w =
     (if scheme sourceUri = ''file''
      then run (fsPath L (dirnameUri L sourceUri)) w
      else (Undefined, w))"

definition targetUri :: "'j lib \<Rightarrow> compDBRunner \<Rightarrow> Uri" where
  "targetUri L runner =
     Uri_joinPath L (uri (props (workspaceFolder runner))) ''compile_commands.json''"

text \<open>
  The \<open>try\<close> block of \<open>#updateCompDB\<close>, given what \<open>readFile\<close> answered:
  \<open>True\<close> when it reaches its \<open>return\<close>. A rejected read and a \<open>SyntaxError\<close>
  of \<open>JSON.parse\<close> both land in the empty \<open>catch\<close>.
\<close>

definition current_is_equal :: "'j lib \<Rightarrow> fs_error + bytes \<Rightarrow> 'j \<Rightarrow> bool" where
  "current_is_equal L rd newCompilerCommandsJSON =
     (case rd of
        Inl e \<Rightarrow> False
      | Inr currentContentBytes \<Rightarrow>
          (case JSON_parse L (Buffer_toString L currentContentBytes) of
             None \<Rightarrow> False
           | Some currentContentJson \<Rightarrow> isEqual L currentContentJson newCompilerCommandsJSON))"

text \<open>
  \<open>#updateCompDB\<close>. \<open>JSON.parse(undefined)\<close> converts its argument to the text
  \<open>undefined\<close>, which is not JSON, and throws. Nothing catches the two
  \<open>SyntaxError\<close>s of the second line.
\<close>

definition updateCompDB ::
  "'j lib \<Rightarrow> compDBRunner \<Rightarrow> Uri \<Rightarrow> world \<Rightarrow> (js_error + unit) \<times> world" where
  "updateCompDB L runner sourceUri w0 =
     (case priv_runCompDB L sourceUri w0 of
        (Undefined, w1) \<Rightarrow> (Inl SyntaxError, w1)
      | (Str newCompilerCommandsText, w1) \<Rightarrow>
          (case JSON_parse L newCompilerCommandsText of
             None \<Rightarrow> (Inl SyntaxError, w1)
           | Some newCompilerCommandsJSON \<Rightarrow>
               (case readFile (targetUri L runner) w1 of
                  (rd, w2) \<Rightarrow>
                    if current_is_equal L rd newCompilerCommandsJSON then (Inr (), w2)
                    else
                      (case stat (targetUri L runner) w2 of
                         (st, w3) \<Rightarrow>
                           let targetAlreadyExists = (case st of Inl e \<Rightarrow> False | Inr ok \<Rightarrow> True);
                               w4 = writeFile (targetUri L runner)
                                      (TextEncoder_encode L newCompilerCommandsText) w3
                           in (Inr (),
                               if \<not> targetAlreadyExists
                               then executeCommand_clangd_restart w4 else w4)))))"

text \<open>
  The public \<open>runCompDB(buildDir)\<close>. \<open>path.posix.join\<close> throws a \<open>TypeError\<close>
  on an argument that is not a string, before anything is awaited.
\<close>

definition runCompDB ::
  "'j lib \<Rightarrow> compDBRunner \<Rightarrow> jsval \<Rightarrow> world \<Rightarrow> (js_error + unit) \<times> world" where
  "runCompDB L runner buildDir w =
     (case buildDir of
        Undefined \<Rightarrow> (Inl TypeError, w)
      | Str d \<Rightarrow>
          updateCompDB L runner (Uri_file L (posix_join L d ''compile_commands.json'')) w)"

text \<open>
  The three watcher handlers. The comparison with the build directory is \<open>!==\<close>
  between a string and whatever the command answered.
\<close>

definition handleCompileCommandsSourceCreated ::
  "'j lib \<Rightarrow> compDBRunner \<Rightarrow> Uri obj \<Rightarrow> world
     \<Rightarrow> (js_error + unit) \<times> compDBRunner \<times> world" where
  "handleCompileCommandsSourceCreated L runner u w0 =
     (let runner' = runner\<lparr>compileCommandsSourceCandidates :=
                       compileCommandsSourceCandidates runner @ [u]\<rparr>
      in case executeCommand_cmake_buildDirectory w0 of
           (cmakeBuildDirectory, w1) \<Rightarrow>
             if Str (fsPath L (dirnameUri L (props u))) \<noteq> cmakeBuildDirectory
             then (Inr (), runner', w1)
             else (case updateCompDB L runner' (props u) w1 of
                     (r, w2) \<Rightarrow> (r, runner', w2)))"

definition handleCompileCommandsSourceChanged ::
  "'j lib \<Rightarrow> compDBRunner \<Rightarrow> Uri obj \<Rightarrow> world
     \<Rightarrow> (js_error + unit) \<times> compDBRunner \<times> world" where
  "handleCompileCommandsSourceChanged L runner u w0 =
     (case executeCommand_cmake_buildDirectory w0 of
        (cmakeBuildDirectory, w1) \<Rightarrow>
          if Str (fsPath L (dirnameUri L (props u))) \<noteq> cmakeBuildDirectory
          then (Inr (), runner, w1)
          else (case updateCompDB L runner (props u) w1 of
                  (r, w2) \<Rightarrow> (r, runner, w2)))"

definition handleCompileCommandsSourceDeleted ::
  "'j lib \<Rightarrow> compDBRunner \<Rightarrow> Uri obj \<Rightarrow> world
     \<Rightarrow> (js_error + unit) \<times> compDBRunner \<times> world" where
  "handleCompileCommandsSourceDeleted L runner u w =
     (Inr (),
      runner\<lparr>compileCommandsSourceCandidates :=
        filter (\<lambda>currentUri. strict_neq currentUri u)
          (compileCommandsSourceCandidates runner)\<rparr>,
      w)"

subsection \<open>WorkspaceManager and CMakeManager\<close>

record workspaceManager =
  compDBRunners :: "compDBRunner list"

definition WorkspaceManager_new :: "WorkspaceFolder obj list \<Rightarrow> workspaceManager" where
  "WorkspaceManager_new workspaceFolders =
     \<lparr>compDBRunners = map CompDBRunner_new workspaceFolders\<rparr>"

text \<open>
  \<open>WorkspaceManager.runCompDB\<close>. The callback of \<open>forEach\<close> calls
  \<open>worker.runCompDB()\<close> with no argument, so \<open>buildDir\<close> is \<open>undefined\<close> in
  each call; \<open>forEach\<close> returns \<open>undefined\<close>, and \<open>Promise.all(undefined)\<close>
  rejects with a \<open>TypeError\<close>. The rejections of the workers' own promises are
  not awaited by anyone. The build directory goes to \<open>console.log\<close> and nowhere
  else; the log line is left out.
\<close>

definition WorkspaceManager_runCompDB ::
  "'j lib \<Rightarrow> workspaceManager \<Rightarrow> WorkspaceFolder obj \<Rightarrow> jsval \<Rightarrow> world
     \<Rightarrow> (js_error + unit) \<times> world" where
  "WorkspaceManager_runCompDB L manager excludedFolder buildDirectory w =
     (let workers = filter (\<lambda>worker. strict_neq (workspaceFolder worker) excludedFolder)
                      (compDBRunners manager);
          w' = foldl (\<lambda>wi worker. snd (runCompDB L worker Undefined wi)) w workers
      in (Inl TypeError, w'))"

definition handleDidChangeWorkspaceFolders ::
  "workspaceManager \<Rightarrow> WorkspaceFolder obj list \<Rightarrow> WorkspaceFolder obj list
     \<Rightarrow> workspaceManager" where
  "handleDidChangeWorkspaceFolders manager removed added =
     (let kept = foldl (\<lambda>rs removedWorkspaceFolder.
                    filter (\<lambda>worker. strict_neq (workspaceFolder worker) removedWorkspaceFolder) rs)
                  (compDBRunners manager) removed
      in manager\<lparr>compDBRunners := kept @ map CompDBRunner_new added\<rparr>)"

text \<open>The active project of the CMake Tools API, as \<open>#handleReconfigured\<close> reads it.\<close>

record project =
  project_workspaceFolder :: "WorkspaceFolder obj"
  binaryDir :: string

definition handleReconfigured ::
  "'j lib \<Rightarrow> workspaceManager \<Rightarrow> project \<Rightarrow> world \<Rightarrow> (js_error + unit) \<times> world" where
  "handleReconfigured L manager activeProject w =
     WorkspaceManager_runCompDB L manager (project_workspaceFolder activeProject)
       (Str (binaryDir activeProject)) w"

subsection \<open>Counting the calls of a run\<close>

fun is_write :: "call \<Rightarrow> bool" where
  "is_write (WriteFile u b) = True"
| "is_write c = False"

fun is_normalization :: "call \<Rightarrow> bool" where
  "is_normalization (CompdbRun d) = True"
| "is_normalization c = False"

definition writes :: "call list \<Rightarrow> call list" where
  "writes cs = filter is_write cs"

definition normalizations :: "call list \<Rightarrow> call list" where
  "normalizations cs = filter is_normalization cs"

definition restarts :: "call list \<Rightarrow> nat" where
  "restarts cs = length (filter (\<lambda>c. c = ClangdRestart) cs)"

text \<open>The calls a run added to the ones made before it.\<close>

definition new_calls :: "world \<Rightarrow> world \<Rightarrow> call list" where
  "new_calls w w' = drop (length (calls w)) (calls w')"

subsection \<open>A POSIX instance of the library, and the scenario of the specification\<close>

text \<open>
  \<open>path.posix.dirname\<close>: trailing slashes are skipped, then the last segment; the
  first character is never inspected by the scan. \<open>endIdx = 0\<close> stands for the
  \<open>-1\<close> of the source, which no slash position can take.
\<close>

definition node_dirname :: "string \<Rightarrow> string" where
  "node_dirname p =
     (if p = [] then ''.''
      else
        let hasRoot = (hd p = CHR ''/'');
            r = dropWhile (\<lambda>c. c \<noteq> CHR ''/'') (dropWhile (\<lambda>c. c = CHR ''/'') (rev (tl p)));
            endIdx = length r
        in if endIdx = 0 then (if hasRoot then ''/'' else ''.'')
           else if hasRoot \<and> endIdx = 1 then ''//''
           else take endIdx p)"

text \<open>
  \<open>path.posix.normalize\<close> and \<open>path.posix.join\<close> on two strings: the segments
  between slashes, without the empty ones and the dots, with \<open>..\<close> removing the
  segment before it (kept when the path is relative and nothing is left to remove).
\<close>

fun split_slash :: "string \<Rightarrow> string list" where
  "split_slash [] = [[]]"
| "split_slash (c # cs) =
     (if c = CHR ''/'' then [] # split_slash cs
      else (case split_slash cs of
              [] \<Rightarrow> [[c]]
            | s # ss \<Rightarrow> (c # s) # ss))"

fun resolve_dots :: "bool \<Rightarrow> string list \<Rightarrow> string list \<Rightarrow> string list" where
  "resolve_dots allowAboveRoot acc [] = rev acc"
| "resolve_dots allowAboveRoot acc (s # ss) =
     (if s = ''..''
      then (case acc of
              [] \<Rightarrow> resolve_dots allowAboveRoot (if allowAboveRoot then [''..''] else []) ss
            | t # ts \<Rightarrow>
                if t = ''..'' then resolve_dots allowAboveRoot (''..'' # acc) ss
                else resolve_dots allowAboveRoot ts ss)
      else resolve_dots allowAboveRoot (s # acc) ss)"

fun join_slash :: "string list \<Rightarrow> string" where
  "join_slash [] = []"
| "join_slash [x] = x"
| "join_slash (x # y # ys) = x @ CHR ''/'' # join_slash (y # ys)"

definition node_normalize :: "string \<Rightarrow> string" where
  "node_normalize p =
     (if p = [] then ''.''
      else
        let isAbsolute = (hd p = CHR ''/'');
            trailingSeparator = (last p = CHR ''/'');
            q = join_slash (resolve_dots (\<not> isAbsolute) []
                  (filter (\<lambda>s. s \<noteq> [] \<and> s \<noteq> ''.'') (split_slash p)))
        in if q = [] then (if isAbsolute then ''/'' else if trailingSeparator then ''./'' else ''.'')
           else (if isAbsolute then ''/'' else []) @ q @ (if trailingSeparator then ''/'' else []))"

definition node_join :: "string \<Rightarrow> string \<Rightarrow> string" where
  "node_join a b =
     (if a = [] \<and> b = [] then ''.''
      else node_normalize (if a = [] then b else if b = [] then a else a @ CHR ''/'' # b))"

text \<open>
  \<open>Uri.file\<close>, \<open>Uri.joinPath\<close> and \<open>Uri.fsPath\<close> on a POSIX host. A path
  that starts with two slashes names a share, whose host becomes the authority; the
  path of a \<open>file\<close> URI always starts with a slash. \<open>fsPath\<close> gives a share its
  two slashes back and strips the slash before a drive letter, which it lowers.
\<close>

definition node_Uri_file :: "string \<Rightarrow> Uri" where
  "node_Uri_file p =
     (let share = (take 2 p = ''//'');
          a = (if share then takeWhile (\<lambda>c. c \<noteq> CHR ''/'') (drop 2 p) else []);
          q = (if share then dropWhile (\<lambda>c. c \<noteq> CHR ''/'') (drop 2 p) else p);
          q' = (if q = [] then ''/'' else if hd q \<noteq> CHR ''/'' then CHR ''/'' # q else q)
      in \<lparr>scheme = ''file'', authority = a, path = q', query = [], fragment = []\<rparr>)"

definition node_Uri_joinPath :: "Uri \<Rightarrow> string \<Rightarrow> Uri" where
  "node_Uri_joinPath u segment = u\<lparr>path := node_join (path u) segment\<rparr>"

definition is_upper :: "char \<Rightarrow> bool" where
  "is_upper c = (65 \<le> (of_char c :: nat) \<and> (of_char c :: nat) \<le> 90)"

definition is_lower :: "char \<Rightarrow> bool" where
  "is_lower c = (97 \<le> (of_char c :: nat) \<and> (of_char c :: nat) \<le> 122)"

definition to_lower :: "char \<Rightarrow> char" where
  "to_lower c = (if is_upper c then char_of ((of_char c :: nat) + 32) else c)"

definition node_fsPath :: "Uri \<Rightarrow> string" where
  "node_fsPath u =
     (if authority u \<noteq> [] \<and> 1 < length (path u) \<and> scheme u = ''file''
      then ''//'' @ authority u @ path u
      else (case path u of
              c0 # c1 # c2 # rest \<Rightarrow>
                if c0 = CHR ''/'' \<and> c2 = CHR '':'' \<and> (is_upper c1 \<or> is_lower c1)
                then to_lower c1 # c2 # rest
                else path u
            | short \<Rightarrow> path u))"

text \<open>
  Texts of one byte per character (ASCII), as the scenario's are: the UTF-8 encoding
  and the decoding that a Node \<open>Buffer\<close> does when it is converted to a string.
\<close>

definition ascii_encode :: "string \<Rightarrow> bytes" where
  "ascii_encode s = map of_char s"

definition ascii_decode :: "bytes \<Rightarrow> string" where
  "ascii_decode bs = map (\<lambda>b. char_of (unat b)) bs"

text \<open>Parsed JSON, the members of an object sorted by key.\<close>

datatype json =
    JNull
  | JBool bool
  | JNum int
  | JStr string
  | JArr "json list"
  | JObj "(string \<times> json) list"

text \<open>
  The normalizer's output in the scenario of the specification, the same database
  printed on three lines (with the text they make, written out character by
  character), and a \<open>JSON.parse\<close> that knows the texts the scenarios use and rejects
  any other.
\<close>

definition scenario_text :: string where
  "scenario_text = ''[{\"directory\":\"/proj\",\"command\":\"cc -c a.c\",\"file\":\"a.c\"}]''"

definition pretty_lines :: "string list" where
  "pretty_lines =
     [''['', ''{\"directory\":\"/proj\",\"command\":\"cc -c a.c\",\"file\":\"a.c\"}'', '']'']"

definition pretty_text :: string where
  "pretty_text =
     CHR ''['' # CHR 0x0A #
     ''{\"directory\":\"/proj\",\"command\":\"cc -c a.c\",\"file\":\"a.c\"}'' @
     [CHR 0x0A, CHR '']'']"

definition scenario_JSON_parse :: "string \<Rightarrow> json option" where
  "scenario_JSON_parse s =
     (if s = scenario_text
      then Some (JArr [JObj [(''command'', JStr ''cc -c a.c''),
                             (''directory'', JStr ''/proj''),
                             (''file'', JStr ''a.c'')]])
      else if s = ''[]'' then Some (JArr [])
      else if s = pretty_text
      then Some (JArr [JObj [(''command'', JStr ''cc -c a.c''),
                             (''directory'', JStr ''/proj''),
                             (''file'', JStr ''a.c'')]])
      else None)"

definition scenario_lib :: "json lib" where
  "scenario_lib =
     \<lparr>posix_dirname = node_dirname,
      posix_join = node_join,
      Uri_file = node_Uri_file,
      Uri_joinPath = node_Uri_joinPath,
      fsPath = node_fsPath,
      JSON_parse = scenario_JSON_parse,
      isEqual = (\<lambda>a b. a = b),
      TextEncoder_encode = ascii_encode,
      Buffer_toString = ascii_decode\<rparr>"

text \<open>
  The workspace folder \<open>/proj\<close> with its runner, a second folder \<open>/other\<close>, the
  URI of the compilation database in the active build directory \<open>/proj/build\<close> and
  of one in \<open>/proj/other_build\<close>, and a world with no published artifact in which
  the tool answers for \<open>/proj/build\<close> only.
\<close>

definition proj_folder :: "WorkspaceFolder obj" where
  "proj_folder = \<lparr>ident = 1, props = \<lparr>uri = node_Uri_file ''/proj'', name = ''proj'', index = 0\<rparr>\<rparr>"

definition other_folder :: "WorkspaceFolder obj" where
  "other_folder = \<lparr>ident = 2, props = \<lparr>uri = node_Uri_file ''/other'', name = ''other'', index = 1\<rparr>\<rparr>"

definition proj_runner :: compDBRunner where
  "proj_runner = CompDBRunner_new proj_folder"

definition build_source :: Uri where
  "build_source = node_Uri_file ''/proj/build/compile_commands.json''"

definition other_build_source :: Uri where
  "other_build_source = node_Uri_file ''/proj/other_build/compile_commands.json''"

definition proj_target :: Uri where
  "proj_target = node_Uri_file ''/proj/compile_commands.json''"

definition scenario_world :: world where
  "scenario_world =
     \<lparr>contents = (\<lambda>u. Inl FileNotFound),
      stats = (\<lambda>u. Inl FileNotFound),
      compdb_list = (\<lambda>d. if d = ''/proj/build'' then Some [scenario_text] else None),
      cmake_buildDirectory = Str ''/proj/build'',
      calls = []\<rparr>"

text \<open>The same world with an artifact already published, holding the given bytes.\<close>

definition published_world :: "bytes \<Rightarrow> world" where
  "published_world b =
     scenario_world\<lparr>contents := (contents scenario_world)(proj_target := Inr b),
                    stats := (stats scenario_world)(proj_target := Inr ())\<rparr>"

text \<open>
  The watcher builds a new \<open>Uri\<close> object for every event it delivers: the object of a
  create event and the object of the delete event for the same file have the same
  properties and different identities.
\<close>

definition created_uri :: "Uri obj" where
  "created_uri = \<lparr>ident = 7, props = build_source\<rparr>"

definition deleted_uri :: "Uri obj" where
  "deleted_uri = \<lparr>ident = 8, props = build_source\<rparr>"

text \<open>The scenario with the tool printing the three lines.\<close>

definition pretty_world :: world where
  "pretty_world =
     scenario_world\<lparr>compdb_list :=
       (\<lambda>d. if d = ''/proj/build'' then Some pretty_lines else None)\<rparr>"






text \<open>A world in which the artifact is there, \<open>readFile\<close> is refused and \<open>stat\<close> fails.\<close>

definition failing_world :: world where
  "failing_world =
     scenario_world\<lparr>contents := (contents scenario_world)(proj_target := Inl NoPermissions),
                    stats := (stats scenario_world)(proj_target := Inl Unavailable)\<rparr>"

text \<open>A world in which the artifact is there and \<open>stat\<close> finds it, and \<open>readFile\<close> is refused.\<close>

definition unreadable_world :: world where
  "unreadable_world =
     scenario_world\<lparr>contents := (contents scenario_world)(proj_target := Inl NoPermissions),
                    stats := (stats scenario_world)(proj_target := Inr ())\<rparr>"

section \<open>What a reconciliation does\<close>

subsection \<open>The join of the tool's lines\<close>

text \<open>
  \<open>join_lines\<close> without its recursion: the first line, then every further line with
  a newline before it.
\<close>

lemma join_lines_newlines:
  "join_lines response =
     (case response of
        [] \<Rightarrow> []
      | l # ls \<Rightarrow> l @ concat (map (\<lambda>x. CHR 0x0A # x) ls))"
  by (induction response rule: join_lines.induct) simp_all

subsection \<open>The two outcomes of the tool run\<close>

lemma priv_runCompDB_file:
  "scheme sourceUri = ''file'' \<Longrightarrow>
   priv_runCompDB L sourceUri w =
     ((case compdb_list w (fsPath L (dirnameUri L sourceUri)) of
         None \<Rightarrow> Undefined
       | Some response \<Rightarrow> Str (join_lines response)),
      w\<lparr>calls := calls w @ [CompdbRun (fsPath L (dirnameUri L sourceUri))]\<rparr>)"
  by (simp add: priv_runCompDB_def run_def PythonShell_run_def split: option.splits)

lemma updateCompDB_normalized:
  assumes "scheme sourceUri = ''file''"
    and "compdb_list w (fsPath L (dirnameUri L sourceUri)) = Some response"
    and "JSON_parse L (join_lines response) = Some j"
  shows "updateCompDB L runner sourceUri w =
     (if current_is_equal L (contents w (targetUri L runner)) j
      then (Inr (), w\<lparr>calls := calls w @
               [CompdbRun (fsPath L (dirnameUri L sourceUri)), ReadFile (targetUri L runner)]\<rparr>)
      else (Inr (),
            w\<lparr>contents := (contents w)(targetUri L runner :=
                   Inr (TextEncoder_encode L (join_lines response))),
              stats := (stats w)(targetUri L runner := Inr ()),
              calls := calls w @
                [CompdbRun (fsPath L (dirnameUri L sourceUri)), ReadFile (targetUri L runner),
                 Stat (targetUri L runner),
                 WriteFile (targetUri L runner) (TextEncoder_encode L (join_lines response))] @
                (case stats w (targetUri L runner) of
                   Inl e \<Rightarrow> [ClangdRestart]
                 | Inr ok \<Rightarrow> [])\<rparr>))"
  using assms
  by (simp add: updateCompDB_def priv_runCompDB_file readFile_def stat_def writeFile_def
      executeCommand_clangd_restart_def split: sum.splits)

lemma updateCompDB_not_normalized:
  assumes "scheme sourceUri = ''file''"
    and "compdb_list w (fsPath L (dirnameUri L sourceUri)) = None"
  shows "updateCompDB L runner sourceUri w =
     (Inl SyntaxError, w\<lparr>calls := calls w @ [CompdbRun (fsPath L (dirnameUri L sourceUri))]\<rparr>)"
  using assms by (simp add: updateCompDB_def priv_runCompDB_file)

text \<open>A run that does not get a parsed text from the tool makes at most the tool call.\<close>

lemma updateCompDB_no_text:
  assumes "scheme sourceUri \<noteq> ''file'' \<or>
           compdb_list w (fsPath L (dirnameUri L sourceUri)) = None \<or>
           (\<exists>response. compdb_list w (fsPath L (dirnameUri L sourceUri)) = Some response \<and>
              JSON_parse L (join_lines response) = None)"
  shows "fst (updateCompDB L runner sourceUri w) = Inl SyntaxError \<and>
         writes (new_calls w (snd (updateCompDB L runner sourceUri w))) = []"
  using assms
  by (auto simp: updateCompDB_def priv_runCompDB_def run_def PythonShell_run_def new_calls_def
      writes_def split: option.splits)

text \<open>The create handler records its URI on every path through it.\<close>

lemma created_runner:
  "fst (snd (handleCompileCommandsSourceCreated L runner u w)) =
     runner\<lparr>compileCommandsSourceCandidates := compileCommandsSourceCandidates runner @ [u]\<rparr>"
  by (simp add: handleCompileCommandsSourceCreated_def Let_def split: prod.splits)

subsection \<open>The scenario, evaluated\<close>

lemma utf8_round_trip_ascii: "ascii_decode (ascii_encode s) = s"
proof -
  have "char_of (unat (of_char c :: 8 word)) = c" for c
  proof -
    have "(of_char c :: 8 word) = of_nat (of_char c)"
      by (simp add: of_nat_of_char)
    then have "unat (of_char c :: 8 word) = (of_char c :: nat) mod 256"
      by (simp add: unat_of_nat)
    then show ?thesis by simp
  qed
  then show ?thesis
    by (simp add: ascii_decode_def ascii_encode_def comp_def)
qed

lemma scenario_scheme: "scheme build_source = ''file''"
  by (simp add: build_source_def node_Uri_file_def)

lemma scenario_dir: "fsPath scenario_lib (dirnameUri scenario_lib build_source) = ''/proj/build''"
  by (simp add: scenario_lib_def dirnameUri_def build_source_def node_Uri_file_def
      node_fsPath_def node_dirname_def)

lemma scenario_other_dir:
  "fsPath scenario_lib (dirnameUri scenario_lib other_build_source) = ''/proj/other_build''"
  by (simp add: scenario_lib_def dirnameUri_def other_build_source_def node_Uri_file_def
      node_fsPath_def node_dirname_def)

lemma scenario_target: "targetUri scenario_lib proj_runner = proj_target"
  by (simp add: targetUri_def scenario_lib_def proj_runner_def CompDBRunner_new_def
      proj_folder_def proj_target_def node_Uri_file_def node_Uri_joinPath_def node_join_def
      node_normalize_def)

lemma scenario_tool: "compdb_list scenario_world ''/proj/build'' = Some [scenario_text]"
  by (simp add: scenario_world_def)

lemma scenario_parse:
  "JSON_parse scenario_lib (join_lines [scenario_text]) =
     Some (JArr [JObj [(''command'', JStr ''cc -c a.c''), (''directory'', JStr ''/proj''),
                       (''file'', JStr ''a.c'')]])"
  by (simp add: scenario_lib_def scenario_JSON_parse_def)

lemma scenario_enc: "TextEncoder_encode scenario_lib = ascii_encode"
  by (simp add: scenario_lib_def)

lemma scenario_dec: "Buffer_toString scenario_lib = ascii_decode"
  by (simp add: scenario_lib_def)

lemma published_contents: "contents (published_world b) proj_target = Inr b"
  by (simp add: published_world_def)

lemma published_stats: "stats (published_world b) proj_target = Inr ()"
  by (simp add: published_world_def)

lemma published_tool: "compdb_list (published_world b) ''/proj/build'' = Some [scenario_text]"
  by (simp add: published_world_def scenario_world_def)

lemma published_calls: "calls (published_world b) = []"
  by (simp add: published_world_def scenario_world_def)

lemma scenario_parse_empty_array: "JSON_parse scenario_lib ''[]'' = Some (JArr [])"
  by (simp add: scenario_lib_def scenario_JSON_parse_def scenario_text_def pretty_text_def)

lemma scenario_other_scheme: "scheme other_build_source = ''file''"
  by (simp add: other_build_source_def node_Uri_file_def)

lemma scenario_calls: "calls scenario_world = []"
  by (simp add: scenario_world_def)

lemma pretty_join: "join_lines pretty_lines = pretty_text"
  by (simp add: pretty_lines_def pretty_text_def)

lemma pretty_parse:
  "JSON_parse scenario_lib (join_lines pretty_lines) =
     Some (JArr [JObj [(''command'', JStr ''cc -c a.c''), (''directory'', JStr ''/proj''),
                       (''file'', JStr ''a.c'')]])"
  by (simp add: pretty_join scenario_lib_def scenario_JSON_parse_def)
    (simp add: pretty_text_def scenario_text_def)

lemma pretty_tool: "compdb_list pretty_world ''/proj/build'' = Some pretty_lines"
  by (simp add: pretty_world_def)





lemma unreadable_tool: "compdb_list unreadable_world ''/proj/build'' = Some [scenario_text]"
  by (simp add: unreadable_world_def scenario_world_def)

section \<open>The claims\<close>

text \<open>
  In the theorems below, normalization succeeds when the source URI has the scheme
  \<open>file\<close>, the tool run for its directory is not rejected, and the text it printed
  is JSON (section 6 of the specification counts malformed output among the failures of
  the normalization). The artifact path is \<open>targetUri L runner\<close>.
\<close>

text \<open>
  C1. When normalization succeeds and no artifact is published at the root of the
  workspace folder before the write (neither \<open>readFile\<close> nor \<open>stat\<close> finds it),
  the reconciliation writes the normalized text to the artifact path and issues exactly
  one restart signal: it calls the tool, \<open>readFile\<close>, \<open>stat\<close>, \<open>writeFile\<close>
  and \<open>clangd.restart\<close>, in this order, and nothing else.
\<close>

theorem first_write_triggers_restart:
  assumes "scheme sourceUri = ''file''"
    and "compdb_list w (fsPath L (dirnameUri L sourceUri)) = Some response"
    and "JSON_parse L (join_lines response) = Some j"
    and "contents w (targetUri L runner) = Inl FileNotFound"
    and "stats w (targetUri L runner) = Inl FileNotFound"
  shows "updateCompDB L runner sourceUri w =
     (Inr (),
      w\<lparr>contents := (contents w)(targetUri L runner :=
             Inr (TextEncoder_encode L (join_lines response))),
        stats := (stats w)(targetUri L runner := Inr ()),
        calls := calls w @
          [CompdbRun (fsPath L (dirnameUri L sourceUri)),
           ReadFile (targetUri L runner),
           Stat (targetUri L runner),
           WriteFile (targetUri L runner) (TextEncoder_encode L (join_lines response)),
           ClangdRestart]\<rparr>) \<and>
     writes (new_calls w (snd (updateCompDB L runner sourceUri w))) =
       [WriteFile (targetUri L runner) (TextEncoder_encode L (join_lines response))] \<and>
     restarts (new_calls w (snd (updateCompDB L runner sourceUri w))) = 1"
  using assms
  by (simp add: updateCompDB_normalized current_is_equal_def new_calls_def writes_def
      restarts_def)

text \<open>
  The first scenario of the specification: the build directory \<open>/proj/build\<close> is
  active, the tool prints the one-entry database, nothing is published yet.
\<close>

theorem first_write_triggers_restart_witness:
  "scheme build_source = ''file'' \<and>
   compdb_list scenario_world (fsPath scenario_lib (dirnameUri scenario_lib build_source)) =
     Some [scenario_text] \<and>
   contents scenario_world (targetUri scenario_lib proj_runner) = Inl FileNotFound \<and>
   stats scenario_world (targetUri scenario_lib proj_runner) = Inl FileNotFound \<and>
   fst (updateCompDB scenario_lib proj_runner build_source scenario_world) = Inr () \<and>
   calls (snd (updateCompDB scenario_lib proj_runner build_source scenario_world)) =
     [CompdbRun ''/proj/build'', ReadFile proj_target, Stat proj_target,
      WriteFile proj_target (ascii_encode scenario_text), ClangdRestart] \<and>
   contents (snd (updateCompDB scenario_lib proj_runner build_source scenario_world)) proj_target =
     Inr (ascii_encode scenario_text)"
proof -
  have absent: "contents scenario_world (targetUri scenario_lib proj_runner) = Inl FileNotFound"
    "stats scenario_world (targetUri scenario_lib proj_runner) = Inl FileNotFound"
    by (simp_all add: scenario_world_def)
  have tool: "compdb_list scenario_world (fsPath scenario_lib (dirnameUri scenario_lib build_source)) =
      Some [scenario_text]"
    by (simp add: scenario_dir scenario_tool)
  have calls0: "calls scenario_world = []"
    by (simp add: scenario_world_def)
  show ?thesis
    using first_write_triggers_restart [OF scenario_scheme tool scenario_parse absent]
      absent tool
    by (simp add: scenario_scheme scenario_dir scenario_target scenario_enc calls0)
qed

text \<open>
  C2. When normalization succeeds and an artifact is already published whose content
  parses to something structurally different from the new content, the reconciliation
  overwrites the artifact with the new text and issues no restart signal.
\<close>

theorem subsequent_write_suppresses_restart:
  assumes "scheme sourceUri = ''file''"
    and "compdb_list w (fsPath L (dirnameUri L sourceUri)) = Some response"
    and "JSON_parse L (join_lines response) = Some j"
    and "contents w (targetUri L runner) = Inr currentContentBytes"
    and "stats w (targetUri L runner) = Inr ()"
    and "JSON_parse L (Buffer_toString L currentContentBytes) = Some currentContentJson"
    and "\<not> isEqual L currentContentJson j"
  shows "updateCompDB L runner sourceUri w =
     (Inr (),
      w\<lparr>contents := (contents w)(targetUri L runner :=
             Inr (TextEncoder_encode L (join_lines response))),
        stats := (stats w)(targetUri L runner := Inr ()),
        calls := calls w @
          [CompdbRun (fsPath L (dirnameUri L sourceUri)),
           ReadFile (targetUri L runner),
           Stat (targetUri L runner),
           WriteFile (targetUri L runner) (TextEncoder_encode L (join_lines response))]\<rparr>) \<and>
     writes (new_calls w (snd (updateCompDB L runner sourceUri w))) =
       [WriteFile (targetUri L runner) (TextEncoder_encode L (join_lines response))] \<and>
     restarts (new_calls w (snd (updateCompDB L runner sourceUri w))) = 0"
  using assms
  by (simp add: updateCompDB_normalized current_is_equal_def new_calls_def writes_def
      restarts_def)

text \<open>The scenario with the empty database \<open>[]\<close> published beforehand.\<close>

theorem subsequent_write_suppresses_restart_witness:
  "contents (published_world (ascii_encode ''[]'')) (targetUri scenario_lib proj_runner) =
     Inr (ascii_encode ''[]'') \<and>
   stats (published_world (ascii_encode ''[]'')) (targetUri scenario_lib proj_runner) = Inr () \<and>
   JSON_parse scenario_lib (Buffer_toString scenario_lib (ascii_encode ''[]'')) = Some (JArr []) \<and>
   fst (updateCompDB scenario_lib proj_runner build_source (published_world (ascii_encode ''[]''))) =
     Inr () \<and>
   calls (snd (updateCompDB scenario_lib proj_runner build_source
                 (published_world (ascii_encode ''[]'')))) =
     [CompdbRun ''/proj/build'', ReadFile proj_target, Stat proj_target,
      WriteFile proj_target (ascii_encode scenario_text)] \<and>
   restarts (calls (snd (updateCompDB scenario_lib proj_runner build_source
                 (published_world (ascii_encode ''[]''))))) = 0"
proof -
  let ?w = "published_world (ascii_encode ''[]'')"
  have tool: "compdb_list ?w (fsPath scenario_lib (dirnameUri scenario_lib build_source)) =
      Some [scenario_text]"
    by (simp add: scenario_dir published_tool)
  have cur: "contents ?w (targetUri scenario_lib proj_runner) = Inr (ascii_encode ''[]'')"
    "stats ?w (targetUri scenario_lib proj_runner) = Inr ()"
    by (simp_all add: scenario_target published_contents published_stats)
  have old: "JSON_parse scenario_lib (Buffer_toString scenario_lib (ascii_encode ''[]'')) =
      Some (JArr [])"
    by (simp add: scenario_dec utf8_round_trip_ascii scenario_parse_empty_array)
  have differs: "\<not> isEqual scenario_lib (JArr [])
      (JArr [JObj [(''command'', JStr ''cc -c a.c''), (''directory'', JStr ''/proj''),
                   (''file'', JStr ''a.c'')]])"
    by (simp add: scenario_lib_def)
  show ?thesis
    using subsequent_write_suppresses_restart
      [OF scenario_scheme tool scenario_parse cur old differs] cur old
    by (simp add: scenario_dir scenario_target scenario_enc published_calls restarts_def)
qed

text \<open>
  C3 (the code departs from it). \<open>WorkspaceManager.runCompDB\<close> does call
  \<open>runCompDB\<close> on every runner whose workspace folder is not the excluded one, but
  without the build directory: each call gets \<open>undefined\<close> and is rejected with a
  \<open>TypeError\<close> before it reaches the tool, and the manager's own promise is
  rejected too. Whatever the runners, the folder and the build directory, nothing is
  reconciled: the world is left as it was.
\<close>

theorem WorkspaceManager_runCompDB_reconciles_nothing:
  "WorkspaceManager_runCompDB L manager excludedFolder buildDirectory w = (Inl TypeError, w)"
proof -
  have "foldl (\<lambda>wi worker. snd (runCompDB L worker Undefined wi)) w workers = w" for workers
    by (induction workers) (simp_all add: runCompDB_def)
  then show ?thesis
    by (simp add: WorkspaceManager_runCompDB_def)
qed




text \<open>
  C5. A create or change event for a path whose parent directory is not the build
  directory that \<open>cmake.buildDirectory\<close> answers at that moment runs no normalization
  and writes nothing: the only call is the query. The create handler still appends the
  URI to the candidates; the change handler leaves the runner as it was.
\<close>

theorem unrelated_event_is_filtered:
  assumes "Str (fsPath L (dirnameUri L (props u))) \<noteq> cmake_buildDirectory w"
  shows "handleCompileCommandsSourceCreated L runner u w =
           (Inr (),
            runner\<lparr>compileCommandsSourceCandidates :=
              compileCommandsSourceCandidates runner @ [u]\<rparr>,
            w\<lparr>calls := calls w @ [BuildDirectoryQuery]\<rparr>) \<and>
         handleCompileCommandsSourceChanged L runner u w =
           (Inr (), runner, w\<lparr>calls := calls w @ [BuildDirectoryQuery]\<rparr>) \<and>
         normalizations
           (new_calls w (snd (snd (handleCompileCommandsSourceCreated L runner u w)))) = [] \<and>
         writes
           (new_calls w (snd (snd (handleCompileCommandsSourceCreated L runner u w)))) = [] \<and>
         normalizations
           (new_calls w (snd (snd (handleCompileCommandsSourceChanged L runner u w)))) = [] \<and>
         writes
           (new_calls w (snd (snd (handleCompileCommandsSourceChanged L runner u w)))) = []"
  using assms
  by (simp add: handleCompileCommandsSourceCreated_def handleCompileCommandsSourceChanged_def
      executeCommand_cmake_buildDirectory_def new_calls_def normalizations_def writes_def)

text \<open>
  The third scenario of the specification: an event for
  \<open>/proj/other_build/compile_commands.json\<close> while \<open>/proj/build\<close> is active.
\<close>

theorem unrelated_event_is_filtered_witness:
  "Str (fsPath scenario_lib (dirnameUri scenario_lib other_build_source)) \<noteq>
     cmake_buildDirectory scenario_world \<and>
   compileCommandsSourceCandidates
     (fst (snd (handleCompileCommandsSourceCreated scenario_lib proj_runner
        \<lparr>ident = 7, props = other_build_source\<rparr> scenario_world))) =
     [\<lparr>ident = 7, props = other_build_source\<rparr>] \<and>
   calls (snd (snd (handleCompileCommandsSourceCreated scenario_lib proj_runner
        \<lparr>ident = 7, props = other_build_source\<rparr> scenario_world))) = [BuildDirectoryQuery] \<and>
   handleCompileCommandsSourceChanged scenario_lib proj_runner
        \<lparr>ident = 7, props = other_build_source\<rparr> scenario_world =
     (Inr (), proj_runner, scenario_world\<lparr>calls := [BuildDirectoryQuery]\<rparr>)"
proof -
  have other: "Str (fsPath scenario_lib (dirnameUri scenario_lib
      (props \<lparr>ident = 7, props = other_build_source\<rparr>))) \<noteq> cmake_buildDirectory scenario_world"
    by (simp add: scenario_other_dir scenario_world_def)
  have calls0: "calls scenario_world = []"
    by (simp add: scenario_world_def)
  show ?thesis
    using unrelated_event_is_filtered [OF other, of proj_runner] other
    by (simp add: calls0 proj_runner_def CompDBRunner_new_def)
qed

text \<open>
  C6 (the code departs from it). When the tool run is rejected, the reconciliation
  makes no other call: no read, no write, no restart, and the file system is as
  before. It does not end silently, though: the empty \<open>catch\<close> makes \<open>#runCompDB\<close>
  resolve with \<open>undefined\<close>, and \<open>JSON.parse(undefined)\<close> throws a
  \<open>SyntaxError\<close> that nothing catches, so the reconciliation is rejected.
\<close>

theorem failed_normalization_rejects_with_SyntaxError:
  assumes "scheme sourceUri = ''file''"
    and "compdb_list w (fsPath L (dirnameUri L sourceUri)) = None"
  shows "updateCompDB L runner sourceUri w =
     (Inl SyntaxError, w\<lparr>calls := calls w @ [CompdbRun (fsPath L (dirnameUri L sourceUri))]\<rparr>)"
  using assms by (rule updateCompDB_not_normalized)

text \<open>In the scenario the tool fails for \<open>/proj/other_build\<close>.\<close>

theorem failed_normalization_rejects_with_SyntaxError_witness:
  "scheme other_build_source = ''file'' \<and>
   compdb_list scenario_world (fsPath scenario_lib (dirnameUri scenario_lib other_build_source)) =
     None \<and>
   updateCompDB scenario_lib proj_runner other_build_source scenario_world =
     (Inl SyntaxError, scenario_world\<lparr>calls := [CompdbRun ''/proj/other_build'']\<rparr>)"
proof -
  have tool: "compdb_list scenario_world
      (fsPath scenario_lib (dirnameUri scenario_lib other_build_source)) = None"
    by (simp add: scenario_other_dir scenario_world_def)
  show ?thesis
    using failed_normalization_rejects_with_SyntaxError [OF scenario_other_scheme tool, of proj_runner]
      tool
    by (simp add: scenario_other_scheme scenario_other_dir scenario_calls)
qed

text \<open>
  C7 (the code departs from it). The delete handler triggers no reconciliation, but it
  filters the candidates with \<open>!==\<close> on \<open>Uri\<close> objects, which compares identities:
  only the very object of the event is removed. The object of a delete event is not the
  object the create event delivered for the same path, so after create and delete of
  \<open>/proj/build/compile_commands.json\<close> the path is still a candidate.
\<close>

theorem delete_event_keeps_the_created_candidate:
  "props created_uri = props deleted_uri \<and>
   path (props deleted_uri) = ''/proj/build/compile_commands.json'' \<and>
   handleCompileCommandsSourceDeleted scenario_lib
     (fst (snd (handleCompileCommandsSourceCreated scenario_lib proj_runner created_uri
                  scenario_world)))
     deleted_uri scenario_world =
   (Inr (), proj_runner\<lparr>compileCommandsSourceCandidates := [created_uri]\<rparr>, scenario_world)"
  by (simp add: created_runner handleCompileCommandsSourceDeleted_def strict_neq_def
      created_uri_def deleted_uri_def proj_runner_def CompDBRunner_new_def build_source_def
      node_Uri_file_def)

text \<open>
  C8 (as stated, it fails). A rejected read is not handled as the artifact not being
  there in every respect: the existence probe is a call of its own. With
  \<open>readFile\<close> refused and \<open>stat\<close> finding the artifact, the run overwrites it and
  issues no restart, where the run for a missing artifact ends with the restart.
\<close>

theorem read_failure_alone_gives_no_restart:
  "contents unreadable_world (targetUri scenario_lib proj_runner) = Inl NoPermissions \<and>
   stats unreadable_world (targetUri scenario_lib proj_runner) = Inr () \<and>
   fst (updateCompDB scenario_lib proj_runner build_source unreadable_world) = Inr () \<and>
   calls (snd (updateCompDB scenario_lib proj_runner build_source unreadable_world)) =
     [CompdbRun ''/proj/build'', ReadFile proj_target, Stat proj_target,
      WriteFile proj_target (ascii_encode scenario_text)] \<and>
   restarts (calls (snd (updateCompDB scenario_lib proj_runner build_source unreadable_world))) = 0 \<and>
   restarts (calls (snd (updateCompDB scenario_lib proj_runner build_source scenario_world))) = 1"
proof -
  have tool: "compdb_list unreadable_world
      (fsPath scenario_lib (dirnameUri scenario_lib build_source)) = Some [scenario_text]"
    by (simp add: scenario_dir unreadable_tool)
  have rd: "contents unreadable_world (targetUri scenario_lib proj_runner) = Inl NoPermissions"
    by (simp add: scenario_target unreadable_world_def)
  have st: "stats unreadable_world (targetUri scenario_lib proj_runner) = Inr ()"
    by (simp add: scenario_target unreadable_world_def)
  have calls0: "calls unreadable_world = []"
    by (simp add: unreadable_world_def scenario_world_def)
  have run: "updateCompDB scenario_lib proj_runner build_source unreadable_world =
      (Inr (),
       unreadable_world\<lparr>contents := (contents unreadable_world)(proj_target :=
              Inr (ascii_encode scenario_text)),
         stats := (stats unreadable_world)(proj_target := Inr ()),
         calls := [CompdbRun ''/proj/build'', ReadFile proj_target, Stat proj_target,
                   WriteFile proj_target (ascii_encode scenario_text)]\<rparr>)"
    using rd st
    by (simp add: updateCompDB_normalized [OF scenario_scheme tool scenario_parse]
        current_is_equal_def scenario_dir scenario_target scenario_enc calls0)
  have tool0: "compdb_list scenario_world
      (fsPath scenario_lib (dirnameUri scenario_lib build_source)) = Some [scenario_text]"
    by (simp add: scenario_dir scenario_tool)
  have absent: "contents scenario_world proj_target = Inl FileNotFound"
    "stats scenario_world proj_target = Inl FileNotFound"
    by (simp_all add: scenario_world_def)
  have missing: "calls (snd (updateCompDB scenario_lib proj_runner build_source scenario_world)) =
      [CompdbRun ''/proj/build'', ReadFile proj_target, Stat proj_target,
       WriteFile proj_target (ascii_encode scenario_text), ClangdRestart]"
    by (simp add: updateCompDB_normalized [OF scenario_scheme tool0 scenario_parse]
        current_is_equal_def scenario_dir scenario_target scenario_enc scenario_calls absent)
  show ?thesis
    using rd st by (simp add: run missing restarts_def)
qed

text \<open>
  C8, amended. A rejected \<open>readFile\<close> or \<open>stat\<close> on the artifact never aborts the
  reconciliation. A rejected read, whatever its error, is handled as there being no
  prior content: the run is the run of the world in which the read answers
  \<open>FileNotFound\<close>, it goes on to the probe and the write, and the restart follows the
  write exactly when \<open>stat\<close> fails. A rejected \<open>stat\<close>, whatever its error, is
  handled as the artifact not existing: a run that reaches the probe is the run of the
  world in which \<open>stat\<close> answers \<open>FileNotFound\<close>, and issues the restart after
  the write. When both are rejected the run is the run for a missing artifact.
\<close>

theorem read_failure_is_no_content_and_stat_failure_is_absence:
  assumes "scheme sourceUri = ''file''"
    and "compdb_list w (fsPath L (dirnameUri L sourceUri)) = Some response"
    and "JSON_parse L (join_lines response) = Some j"
  shows "(contents w (targetUri L runner) = Inl e1 \<longrightarrow>
            updateCompDB L runner sourceUri w =
              updateCompDB L runner sourceUri
                (w\<lparr>contents := (contents w)(targetUri L runner := Inl FileNotFound)\<rparr>) \<and>
            updateCompDB L runner sourceUri w =
              (Inr (),
               w\<lparr>contents := (contents w)(targetUri L runner :=
                      Inr (TextEncoder_encode L (join_lines response))),
                 stats := (stats w)(targetUri L runner := Inr ()),
                 calls := calls w @
                   [CompdbRun (fsPath L (dirnameUri L sourceUri)),
                    ReadFile (targetUri L runner),
                    Stat (targetUri L runner),
                    WriteFile (targetUri L runner) (TextEncoder_encode L (join_lines response))] @
                   (case stats w (targetUri L runner) of
                      Inl e \<Rightarrow> [ClangdRestart]
                    | Inr ok \<Rightarrow> [])\<rparr>)) \<and>
         (stats w (targetUri L runner) = Inl e2 \<longrightarrow>
            \<not> current_is_equal L (contents w (targetUri L runner)) j \<longrightarrow>
            updateCompDB L runner sourceUri w =
              updateCompDB L runner sourceUri
                (w\<lparr>stats := (stats w)(targetUri L runner := Inl FileNotFound)\<rparr>) \<and>
            updateCompDB L runner sourceUri w =
              (Inr (),
               w\<lparr>contents := (contents w)(targetUri L runner :=
                      Inr (TextEncoder_encode L (join_lines response))),
                 stats := (stats w)(targetUri L runner := Inr ()),
                 calls := calls w @
                   [CompdbRun (fsPath L (dirnameUri L sourceUri)),
                    ReadFile (targetUri L runner),
                    Stat (targetUri L runner),
                    WriteFile (targetUri L runner) (TextEncoder_encode L (join_lines response)),
                    ClangdRestart]\<rparr>)) \<and>
         (contents w (targetUri L runner) = Inl e1 \<longrightarrow>
            stats w (targetUri L runner) = Inl e2 \<longrightarrow>
            updateCompDB L runner sourceUri w =
              updateCompDB L runner sourceUri
                (w\<lparr>contents := (contents w)(targetUri L runner := Inl FileNotFound),
                   stats := (stats w)(targetUri L runner := Inl FileNotFound)\<rparr>))"
proof -
  let ?t = "targetUri L runner"
  let ?wr = "w\<lparr>contents := (contents w)(?t := Inl FileNotFound)\<rparr>"
  let ?ws = "w\<lparr>stats := (stats w)(?t := Inl FileNotFound)\<rparr>"
  let ?wb = "w\<lparr>contents := (contents w)(?t := Inl FileNotFound),
               stats := (stats w)(?t := Inl FileNotFound)\<rparr>"
  have tool_r: "compdb_list ?wr (fsPath L (dirnameUri L sourceUri)) = Some response"
    and tool_s: "compdb_list ?ws (fsPath L (dirnameUri L sourceUri)) = Some response"
    and tool_b: "compdb_list ?wb (fsPath L (dirnameUri L sourceUri)) = Some response"
    using assms(2) by simp_all
  note run = updateCompDB_normalized [OF assms, of runner]
  note run_r = updateCompDB_normalized [OF assms(1) tool_r assms(3), of runner]
  note run_s = updateCompDB_normalized [OF assms(1) tool_s assms(3), of runner]
  note run_b = updateCompDB_normalized [OF assms(1) tool_b assms(3), of runner]
  have read_half: "updateCompDB L runner sourceUri w = updateCompDB L runner sourceUri ?wr"
    if "contents w ?t = Inl e1"
    using that by (simp add: run run_r current_is_equal_def)
  have read_run: "updateCompDB L runner sourceUri w =
      (Inr (),
       w\<lparr>contents := (contents w)(?t := Inr (TextEncoder_encode L (join_lines response))),
         stats := (stats w)(?t := Inr ()),
         calls := calls w @
           [CompdbRun (fsPath L (dirnameUri L sourceUri)), ReadFile ?t, Stat ?t,
            WriteFile ?t (TextEncoder_encode L (join_lines response))] @
           (case stats w ?t of Inl e \<Rightarrow> [ClangdRestart] | Inr ok \<Rightarrow> [])\<rparr>)"
    if "contents w ?t = Inl e1"
    using that by (simp add: run current_is_equal_def)
  have stat_half: "updateCompDB L runner sourceUri w = updateCompDB L runner sourceUri ?ws"
    if "stats w ?t = Inl e2" and "\<not> current_is_equal L (contents w ?t) j"
    using that by (simp add: run run_s)
  have stat_run: "updateCompDB L runner sourceUri w =
      (Inr (),
       w\<lparr>contents := (contents w)(?t := Inr (TextEncoder_encode L (join_lines response))),
         stats := (stats w)(?t := Inr ()),
         calls := calls w @
           [CompdbRun (fsPath L (dirnameUri L sourceUri)), ReadFile ?t, Stat ?t,
            WriteFile ?t (TextEncoder_encode L (join_lines response)), ClangdRestart]\<rparr>)"
    if "stats w ?t = Inl e2" and "\<not> current_is_equal L (contents w ?t) j"
    using that by (simp add: run)
  have both: "updateCompDB L runner sourceUri w = updateCompDB L runner sourceUri ?wb"
    if "contents w ?t = Inl e1" and "stats w ?t = Inl e2"
    using that by (simp add: run run_b current_is_equal_def)
  show ?thesis
    using read_half read_run stat_half stat_run both by blast
qed

text \<open>
  In the scenario: with the read refused and \<open>stat\<close> unavailable the run writes and
  restarts; with the read refused and \<open>stat\<close> finding the artifact it writes and
  does not restart.
\<close>

theorem read_failure_is_no_content_and_stat_failure_is_absence_witness:
  "contents failing_world (targetUri scenario_lib proj_runner) = Inl NoPermissions \<and>
   stats failing_world (targetUri scenario_lib proj_runner) = Inl Unavailable \<and>
   fst (updateCompDB scenario_lib proj_runner build_source failing_world) = Inr () \<and>
   calls (snd (updateCompDB scenario_lib proj_runner build_source failing_world)) =
     [CompdbRun ''/proj/build'', ReadFile proj_target, Stat proj_target,
      WriteFile proj_target (ascii_encode scenario_text), ClangdRestart] \<and>
   contents unreadable_world (targetUri scenario_lib proj_runner) = Inl NoPermissions \<and>
   fst (updateCompDB scenario_lib proj_runner build_source unreadable_world) = Inr () \<and>
   calls (snd (updateCompDB scenario_lib proj_runner build_source unreadable_world)) =
     [CompdbRun ''/proj/build'', ReadFile proj_target, Stat proj_target,
      WriteFile proj_target (ascii_encode scenario_text)]"
proof -
  have tool: "compdb_list failing_world (fsPath scenario_lib (dirnameUri scenario_lib build_source)) =
      Some [scenario_text]"
    by (simp add: scenario_dir failing_world_def scenario_world_def)
  have rd: "contents failing_world (targetUri scenario_lib proj_runner) = Inl NoPermissions"
    by (simp add: scenario_target failing_world_def)
  have st: "stats failing_world (targetUri scenario_lib proj_runner) = Inl Unavailable"
    by (simp add: scenario_target failing_world_def)
  have differs: "\<not> current_is_equal scenario_lib
      (contents failing_world (targetUri scenario_lib proj_runner)) j" for j
    by (simp add: rd current_is_equal_def)
  have calls0: "calls failing_world = []"
    by (simp add: failing_world_def scenario_world_def)
  have both_fail: "updateCompDB scenario_lib proj_runner build_source failing_world =
      (Inr (),
       failing_world\<lparr>contents := (contents failing_world)(targetUri scenario_lib proj_runner :=
              Inr (TextEncoder_encode scenario_lib (join_lines [scenario_text]))),
         stats := (stats failing_world)(targetUri scenario_lib proj_runner := Inr ()),
         calls := calls failing_world @
           [CompdbRun (fsPath scenario_lib (dirnameUri scenario_lib build_source)),
            ReadFile (targetUri scenario_lib proj_runner),
            Stat (targetUri scenario_lib proj_runner),
            WriteFile (targetUri scenario_lib proj_runner)
              (TextEncoder_encode scenario_lib (join_lines [scenario_text])),
            ClangdRestart]\<rparr>)"
    using read_failure_is_no_content_and_stat_failure_is_absence
      [OF scenario_scheme tool scenario_parse, of proj_runner NoPermissions Unavailable]
      st differs
    by blast
  have tool': "compdb_list unreadable_world
      (fsPath scenario_lib (dirnameUri scenario_lib build_source)) = Some [scenario_text]"
    by (simp add: scenario_dir unreadable_tool)
  have rd': "contents unreadable_world (targetUri scenario_lib proj_runner) = Inl NoPermissions"
    by (simp add: scenario_target unreadable_world_def)
  have st': "stats unreadable_world proj_target = Inr ()"
    by (simp add: unreadable_world_def)
  have calls0': "calls unreadable_world = []"
    by (simp add: unreadable_world_def scenario_world_def)
  have read_fails: "updateCompDB scenario_lib proj_runner build_source unreadable_world =
      (Inr (),
       unreadable_world\<lparr>contents := (contents unreadable_world)(targetUri scenario_lib proj_runner :=
              Inr (TextEncoder_encode scenario_lib (join_lines [scenario_text]))),
         stats := (stats unreadable_world)(targetUri scenario_lib proj_runner := Inr ()),
         calls := calls unreadable_world @
           [CompdbRun (fsPath scenario_lib (dirnameUri scenario_lib build_source)),
            ReadFile (targetUri scenario_lib proj_runner),
            Stat (targetUri scenario_lib proj_runner),
            WriteFile (targetUri scenario_lib proj_runner)
              (TextEncoder_encode scenario_lib (join_lines [scenario_text]))] @
           (case stats unreadable_world (targetUri scenario_lib proj_runner) of
              Inl e \<Rightarrow> [ClangdRestart]
            | Inr ok \<Rightarrow> [])\<rparr>)"
    using read_failure_is_no_content_and_stat_failure_is_absence
      [OF scenario_scheme tool' scenario_parse, of proj_runner NoPermissions Unavailable]
      rd'
    by blast
  show ?thesis
    using rd st rd'
    by (simp add: both_fail read_fails st' scenario_dir scenario_target scenario_enc calls0 calls0')
qed

text \<open>
  C9. Whenever a reconciliation writes, it writes once, to
  \<open>Uri.joinPath(workspaceFolder.uri, 'compile_commands.json')\<close>, and the bytes are the
  encoding by \<open>TextEncoder\<close> (UTF-8) of the lines the tool printed joined by
  newlines: the first line, then every further line with the newline character before
  it. It is the text itself, not a serialization of what was parsed from it. The file
  then holds these bytes.
\<close>

theorem written_bytes_are_the_normalizer_text:
  assumes "WriteFile u b \<in> set (new_calls w (snd (updateCompDB L runner sourceUri w)))"
  shows "u = Uri_joinPath L (uri (props (workspaceFolder runner))) ''compile_commands.json'' \<and>
         (\<exists>response. compdb_list w (fsPath L (dirnameUri L sourceUri)) = Some response \<and>
            b = TextEncoder_encode L
                  (case response of
                     [] \<Rightarrow> []
                   | l # ls \<Rightarrow> l @ concat (map (\<lambda>x. CHR 0x0A # x) ls))) \<and>
         writes (new_calls w (snd (updateCompDB L runner sourceUri w))) = [WriteFile u b] \<and>
         contents (snd (updateCompDB L runner sourceUri w)) u = Inr b"
proof (cases "scheme sourceUri = ''file''")
  case False
  then have "writes (new_calls w (snd (updateCompDB L runner sourceUri w))) = []"
    using updateCompDB_no_text [of sourceUri w L runner] by simp
  with assms show ?thesis
    by (auto simp: writes_def filter_empty_conv)
next
  case is_file: True
  show ?thesis
  proof (cases "compdb_list w (fsPath L (dirnameUri L sourceUri))")
    case None
    then have "writes (new_calls w (snd (updateCompDB L runner sourceUri w))) = []"
      using updateCompDB_no_text [of sourceUri w L runner] by simp
    with assms show ?thesis
      by (auto simp: writes_def filter_empty_conv)
  next
    case tool: (Some response)
    show ?thesis
    proof (cases "JSON_parse L (join_lines response)")
      case None
      with tool have "writes (new_calls w (snd (updateCompDB L runner sourceUri w))) = []"
        using updateCompDB_no_text [of sourceUri w L runner] by simp
      with assms show ?thesis
        by (auto simp: writes_def filter_empty_conv)
    next
      case parsed: (Some j)
      have run: "u = targetUri L runner \<and>
          b = TextEncoder_encode L (join_lines response) \<and>
          writes (new_calls w (snd (updateCompDB L runner sourceUri w))) = [WriteFile u b] \<and>
          contents (snd (updateCompDB L runner sourceUri w)) u = Inr b"
        using assms
        by (simp add: updateCompDB_normalized [OF is_file tool parsed]
            new_calls_def writes_def split: if_splits sum.splits)
      with tool show ?thesis
        by (auto simp: targetUri_def join_lines_newlines [symmetric])
    qed
  qed
qed

text \<open>
  In the scenario with the tool printing three lines, the one write goes to
  \<open>/proj/compile_commands.json\<close> and carries the three lines with a newline between
  each two.
\<close>

theorem written_bytes_are_the_normalizer_text_witness:
  "compdb_list pretty_world (fsPath scenario_lib (dirnameUri scenario_lib build_source)) =
     Some [''['', ''{\"directory\":\"/proj\",\"command\":\"cc -c a.c\",\"file\":\"a.c\"}'', '']''] \<and>
   WriteFile proj_target
     (ascii_encode
        (CHR ''['' # CHR 0x0A #
         ''{\"directory\":\"/proj\",\"command\":\"cc -c a.c\",\"file\":\"a.c\"}'' @
         [CHR 0x0A, CHR '']''])) \<in>
     set (new_calls pretty_world
            (snd (updateCompDB scenario_lib proj_runner build_source pretty_world))) \<and>
   path proj_target = ''/proj/compile_commands.json'' \<and>
   proj_target =
     Uri_joinPath scenario_lib (uri (props (workspaceFolder proj_runner))) ''compile_commands.json'' \<and>
   writes (new_calls pretty_world
            (snd (updateCompDB scenario_lib proj_runner build_source pretty_world))) =
     [WriteFile proj_target
        (ascii_encode
           (CHR ''['' # CHR 0x0A #
            ''{\"directory\":\"/proj\",\"command\":\"cc -c a.c\",\"file\":\"a.c\"}'' @
            [CHR 0x0A, CHR '']'']))] \<and>
   contents (snd (updateCompDB scenario_lib proj_runner build_source pretty_world)) proj_target =
     Inr (ascii_encode
            (CHR ''['' # CHR 0x0A #
             ''{\"directory\":\"/proj\",\"command\":\"cc -c a.c\",\"file\":\"a.c\"}'' @
             [CHR 0x0A, CHR '']'']))"
proof -
  have tool: "compdb_list pretty_world (fsPath scenario_lib (dirnameUri scenario_lib build_source)) =
      Some pretty_lines"
    by (simp add: scenario_dir pretty_tool)
  have absent: "\<not> current_is_equal scenario_lib (contents pretty_world proj_target) j" for j
    by (simp add: current_is_equal_def pretty_world_def scenario_world_def)
  have calls0: "calls pretty_world = []"
    by (simp add: pretty_world_def scenario_world_def)
  have written: "WriteFile proj_target (ascii_encode pretty_text) \<in>
     set (new_calls pretty_world
            (snd (updateCompDB scenario_lib proj_runner build_source pretty_world)))"
    by (simp add: updateCompDB_normalized [OF scenario_scheme tool pretty_parse] absent
        new_calls_def calls0 scenario_target scenario_enc pretty_join)
  have target: "proj_target =
     Uri_joinPath scenario_lib (uri (props (workspaceFolder proj_runner))) ''compile_commands.json''"
    using scenario_target by (simp add: targetUri_def)
  have where_to: "path proj_target = ''/proj/compile_commands.json''"
    by (simp add: proj_target_def node_Uri_file_def)
  have "WriteFile proj_target (ascii_encode pretty_text) \<in>
     set (new_calls pretty_world
            (snd (updateCompDB scenario_lib proj_runner build_source pretty_world))) \<and>
    writes (new_calls pretty_world
            (snd (updateCompDB scenario_lib proj_runner build_source pretty_world))) =
     [WriteFile proj_target (ascii_encode pretty_text)] \<and>
    contents (snd (updateCompDB scenario_lib proj_runner build_source pretty_world)) proj_target =
     Inr (ascii_encode pretty_text)"
    using written_bytes_are_the_normalizer_text [OF written] written
    by simp
  then show ?thesis
    using tool target where_to
    by (simp add: pretty_text_def pretty_lines_def)
qed

text \<open>
  C10. When the artifact is there (it reads and \<open>stat\<close> finds it) but its content is
  not JSON, the \<open>SyntaxError\<close> lands in the \<open>catch\<close> that also takes a rejected
  read, so the \<open>try\<close> block decides as it does for a missing file; the artifact is
  overwritten, and since the existence probe succeeds no restart signal is issued.
\<close>

theorem unparsable_artifact_is_overwritten_without_restart:
  assumes "scheme sourceUri = ''file''"
    and "compdb_list w (fsPath L (dirnameUri L sourceUri)) = Some response"
    and "JSON_parse L (join_lines response) = Some j"
    and "contents w (targetUri L runner) = Inr currentContentBytes"
    and "stats w (targetUri L runner) = Inr ()"
    and "JSON_parse L (Buffer_toString L currentContentBytes) = None"
  shows "current_is_equal L (contents w (targetUri L runner)) j =
           current_is_equal L (Inl FileNotFound) j \<and>
         updateCompDB L runner sourceUri w =
           (Inr (),
            w\<lparr>contents := (contents w)(targetUri L runner :=
                   Inr (TextEncoder_encode L (join_lines response))),
              stats := (stats w)(targetUri L runner := Inr ()),
              calls := calls w @
                [CompdbRun (fsPath L (dirnameUri L sourceUri)),
                 ReadFile (targetUri L runner),
                 Stat (targetUri L runner),
                 WriteFile (targetUri L runner) (TextEncoder_encode L (join_lines response))]\<rparr>) \<and>
         restarts (new_calls w (snd (updateCompDB L runner sourceUri w))) = 0"
  using assms
  by (simp add: updateCompDB_normalized current_is_equal_def new_calls_def restarts_def)

text \<open>The scenario with the text \<open>not json\<close> published beforehand.\<close>

theorem unparsable_artifact_is_overwritten_without_restart_witness:
  "contents (published_world (ascii_encode ''not json'')) (targetUri scenario_lib proj_runner) =
     Inr (ascii_encode ''not json'') \<and>
   stats (published_world (ascii_encode ''not json'')) (targetUri scenario_lib proj_runner) =
     Inr () \<and>
   JSON_parse scenario_lib (Buffer_toString scenario_lib (ascii_encode ''not json'')) = None \<and>
   updateCompDB scenario_lib proj_runner build_source (published_world (ascii_encode ''not json'')) =
     (Inr (),
      (published_world (ascii_encode ''not json''))
        \<lparr>contents := (contents (published_world (ascii_encode ''not json'')))
             (proj_target := Inr (ascii_encode scenario_text)),
         stats := (stats (published_world (ascii_encode ''not json'')))(proj_target := Inr ()),
         calls := [CompdbRun ''/proj/build'', ReadFile proj_target, Stat proj_target,
                   WriteFile proj_target (ascii_encode scenario_text)]\<rparr>)"
proof -
  let ?w = "published_world (ascii_encode ''not json'')"
  have tool: "compdb_list ?w (fsPath scenario_lib (dirnameUri scenario_lib build_source)) =
      Some [scenario_text]"
    by (simp add: scenario_dir published_tool)
  have cur: "contents ?w (targetUri scenario_lib proj_runner) = Inr (ascii_encode ''not json'')"
    "stats ?w (targetUri scenario_lib proj_runner) = Inr ()"
    by (simp_all add: scenario_target published_contents published_stats)
  have old: "JSON_parse scenario_lib (Buffer_toString scenario_lib (ascii_encode ''not json'')) = None"
    by (simp add: scenario_dec utf8_round_trip_ascii scenario_lib_def scenario_JSON_parse_def
        scenario_text_def pretty_text_def)
  show ?thesis
    using unparsable_artifact_is_overwritten_without_restart
      [OF scenario_scheme tool scenario_parse cur old] cur old
    by (simp add: scenario_dir scenario_target scenario_enc published_calls)
qed

end
